theory Spec2Isabelle
  imports Complex_Main "HOL-Library.Sublist"
begin

section \<open>Data model\<close>

text \<open>
  Paths are the strings \<^verbatim>\<open>str(video_path)\<close> that the persistence layer stores.
  Timestamps (\<^verbatim>\<open>datetime.now()\<close>) are passed in by the caller as natural numbers.
  Python floats (\<^verbatim>\<open>fps\<close>, \<^verbatim>\<open>duration\<close>, processing times) are written as reals and the
  integer columns of the database as unbounded integers: the sums of the ledger are the
  exact ones, where SQLite adds doubles and 64-bit integers.
\<close>

type_synonym path = string
type_synonym timestamp = nat

datatype py_error =
    DatabaseError
  | FileSystemError
  | KeyError string
  | TypeError
  | ZeroDivisionError
  | OtherError string

text \<open>\<^verbatim>\<open>VideoAnalysis\<close> of \<^verbatim>\<open>analysis/codec_detector.py\<close>; \<^verbatim>\<open>probe_data\<close> is kept as its JSON text.\<close>

record video_analysis =
  file_path :: path
  video_codec :: string
  audio_codec :: string
  container :: string
  resolution :: string
  width :: int
  height :: int
  fps :: real
  duration :: real
  bitrate :: int
  file_size :: int
  needs_conversion :: bool
  reason :: string
  probe_data :: string

section \<open>ResultStore: \<^verbatim>\<open>persistence/database.py\<close>\<close>

datatype conv_status = Started | Completed | Failed | Skipped

text \<open>A row of table \<^verbatim>\<open>videos\<close>: the key columns and the analysis columns (the
  \<^verbatim>\<open>reason\<close> field of the analysis is not a column and is stored empty).\<close>

record video_row =
  vr_id :: nat
  vr_file_path :: path
  vr_columns :: video_analysis
  vr_analysis_date :: timestamp

record conversion_row =
  cr_id :: nat
  cr_video_id :: nat
  cr_file_path :: path
  cr_status :: conv_status
  cr_original_size :: int
  cr_converted_size :: "int option"
  cr_compression_ratio :: "real option"
  cr_space_saved :: "int option"
  cr_processing_time :: "real option"
  cr_error_message :: "string option"
  cr_started_at :: "timestamp option"
  cr_completed_at :: "timestamp option"

text \<open>The single row of table \<^verbatim>\<open>statistics\<close> (\<^verbatim>\<open>_initialize_database\<close> inserts it when the
  table is empty, and no operation inserts or deletes a row afterwards).\<close>

record statistics_row =
  total_conversions :: int
  successful_conversions :: int
  failed_conversions :: int
  skipped_conversions :: int
  total_original_size :: int
  total_converted_size :: int
  total_space_saved :: int
  total_processing_time :: real
  last_updated :: timestamp

record conversion_database =
  videos :: "video_row list"
  videos_seq :: nat
  conversions :: "conversion_row list"
  conversions_seq :: nat
  statistics :: statistics_row

definition default_statistics :: "timestamp \<Rightarrow> statistics_row" where
  "default_statistics now =
     \<lparr>total_conversions = 0, successful_conversions = 0, failed_conversions = 0,
      skipped_conversions = 0, total_original_size = 0, total_converted_size = 0,
      total_space_saved = 0, total_processing_time = 0, last_updated = now\<rparr>"

definition initial_database :: "timestamp \<Rightarrow> conversion_database" where
  "initial_database now =
     \<lparr>videos = [], videos_seq = 0, conversions = [], conversions_seq = 0,
      statistics = default_statistics now\<rparr>"

subsection \<open>Transactions\<close>

text \<open>
  \<^verbatim>\<open>_get_connection\<close> opens a connection, the body executes its statements and calls
  \<^verbatim>\<open>commit\<close>; a \<^verbatim>\<open>sqlite3.Error\<close> anywhere rolls back and raises \<^verbatim>\<open>DatabaseError\<close>.
  The statements work on a copy of the tables that replaces the persisted tables only at the
  commit. \<open>FailAt k\<close> makes the \<open>k\<close>-th operation of the transaction (statements counted
  from 0, the commit last) raise \<^verbatim>\<open>sqlite3.Error\<close>.
\<close>

datatype sql_fault = NoFault | FailAt nat

fun run_statements :: "nat \<Rightarrow> sql_fault \<Rightarrow> (conversion_database \<Rightarrow> conversion_database) list \<Rightarrow> conversion_database \<Rightarrow> conversion_database option" where
  "run_statements i f [] w = (if f = FailAt i then None else Some w)"
| "run_statements i f (s # ss) w =
     (if f = FailAt i then None else run_statements (Suc i) f ss (s w))"

text \<open>The result is the error raised, if any, and the persisted tables afterwards.\<close>

definition transaction :: "sql_fault \<Rightarrow> (conversion_database \<Rightarrow> conversion_database) list \<Rightarrow> conversion_database \<Rightarrow> py_error option \<times> conversion_database" where
  "transaction f stmts db =
     (case run_statements 0 f stmts db of
        None \<Rightarrow> (Some DatabaseError, db)
      | Some w \<Rightarrow> (None, w))"

subsection \<open>\<^verbatim>\<open>store_analysis\<close>, \<^verbatim>\<open>get_analysis\<close>\<close>

text \<open>\<^verbatim>\<open>INSERT OR REPLACE INTO videos\<close>: \<^verbatim>\<open>file_path\<close> is \<^verbatim>\<open>UNIQUE\<close>, so a row with the same
  path is deleted and the new row gets the next \<^verbatim>\<open>AUTOINCREMENT\<close> id.\<close>

definition insert_or_replace_video :: "path \<Rightarrow> video_analysis \<Rightarrow> timestamp \<Rightarrow> conversion_database \<Rightarrow> conversion_database" where
  "insert_or_replace_video video_path analysis now w =
     w\<lparr>videos := filter (\<lambda>r. vr_file_path r \<noteq> video_path) (videos w) @
          [\<lparr>vr_id = Suc (videos_seq w), vr_file_path = video_path,
            vr_columns = analysis\<lparr>file_path := video_path, reason := []\<rparr>,
            vr_analysis_date = now\<rparr>],
       videos_seq := Suc (videos_seq w)\<rparr>"

definition store_analysis :: "sql_fault \<Rightarrow> path \<Rightarrow> video_analysis \<Rightarrow> timestamp \<Rightarrow> conversion_database \<Rightarrow> py_error option \<times> conversion_database" where
  "store_analysis f video_path analysis now db =
     transaction f [insert_or_replace_video video_path analysis now] db"

definition get_analysis :: "conversion_database \<Rightarrow> path \<Rightarrow> video_analysis option" where
  "get_analysis db video_path =
     (case filter (\<lambda>r. vr_file_path r = video_path) (videos db) of
        [] \<Rightarrow> None
      | row # _ \<Rightarrow> Some (vr_columns row))"

subsection \<open>\<^verbatim>\<open>mark_started\<close>, \<^verbatim>\<open>mark_completed\<close>, \<^verbatim>\<open>mark_failed\<close>, \<^verbatim>\<open>is_converted\<close>\<close>

definition insert_conversion :: "nat \<Rightarrow> path \<Rightarrow> int \<Rightarrow> timestamp \<Rightarrow> conversion_database \<Rightarrow> conversion_database" where
  "insert_conversion video_id video_path original_size now w =
     w\<lparr>conversions := conversions w @
          [\<lparr>cr_id = Suc (conversions_seq w), cr_video_id = video_id,
            cr_file_path = video_path, cr_status = Started,
            cr_original_size = original_size, cr_converted_size = None,
            cr_compression_ratio = None, cr_space_saved = None,
            cr_processing_time = None, cr_error_message = None,
            cr_started_at = Some now, cr_completed_at = None\<rparr>],
       conversions_seq := Suc (conversions_seq w)\<rparr>"

text \<open>\<^verbatim>\<open>mark_started\<close> returns the new conversion id; a path without a \<^verbatim>\<open>videos\<close> row raises
  \<^verbatim>\<open>DatabaseError\<close>. Operation 0 is the \<^verbatim>\<open>SELECT\<close>, operation 1 the \<^verbatim>\<open>INSERT\<close>, operation 2
  the commit.\<close>

definition mark_started :: "sql_fault \<Rightarrow> path \<Rightarrow> int \<Rightarrow> timestamp \<Rightarrow> conversion_database \<Rightarrow> (py_error + nat) \<times> conversion_database" where
  "mark_started f video_path original_size now db =
     (if f = FailAt 0 then (Inl DatabaseError, db)
      else case filter (\<lambda>r. vr_file_path r = video_path) (videos db) of
        [] \<Rightarrow> (Inl DatabaseError, db)
      | row # _ \<Rightarrow>
          (case run_statements 1 f [insert_conversion (vr_id row) video_path original_size now] db of
             None \<Rightarrow> (Inl DatabaseError, db)
           | Some w \<Rightarrow> (Inr (conversions_seq w), w)))"

definition set_completed :: "path \<Rightarrow> int \<Rightarrow> int \<Rightarrow> real \<Rightarrow> timestamp \<Rightarrow> conversion_row \<Rightarrow> conversion_row" where
  "set_completed video_path original_size converted_size processing_time now r =
     (if cr_file_path r = video_path \<and> cr_status r = Started
      then r\<lparr>cr_status := Completed,
             cr_converted_size := Some converted_size,
             cr_compression_ratio :=
               Some (if original_size > 0 then real_of_int converted_size / real_of_int original_size else 1),
             cr_space_saved := Some (original_size - converted_size),
             cr_processing_time := Some processing_time,
             cr_completed_at := Some now\<rparr>
      else r)"

definition update_conversions_completed :: "path \<Rightarrow> int \<Rightarrow> int \<Rightarrow> real \<Rightarrow> timestamp \<Rightarrow> conversion_database \<Rightarrow> conversion_database" where
  "update_conversions_completed video_path original_size converted_size processing_time now w =
     w\<lparr>conversions :=
         map (set_completed video_path original_size converted_size processing_time now) (conversions w)\<rparr>"

definition update_statistics_completed :: "int \<Rightarrow> int \<Rightarrow> real \<Rightarrow> timestamp \<Rightarrow> conversion_database \<Rightarrow> conversion_database" where
  "update_statistics_completed original_size converted_size processing_time now w =
     w\<lparr>statistics := (statistics w)
         \<lparr>successful_conversions := successful_conversions (statistics w) + 1,
          total_original_size := total_original_size (statistics w) + original_size,
          total_converted_size := total_converted_size (statistics w) + converted_size,
          total_space_saved := total_space_saved (statistics w) + (original_size - converted_size),
          total_processing_time := total_processing_time (statistics w) + processing_time,
          last_updated := now\<rparr>\<rparr>"

definition mark_completed :: "sql_fault \<Rightarrow> path \<Rightarrow> int \<Rightarrow> int \<Rightarrow> real \<Rightarrow> timestamp \<Rightarrow> conversion_database \<Rightarrow> py_error option \<times> conversion_database" where
  "mark_completed f video_path original_size converted_size processing_time now db =
     transaction f
       [update_conversions_completed video_path original_size converted_size processing_time now,
        update_statistics_completed original_size converted_size processing_time now] db"

definition set_failed :: "path \<Rightarrow> string \<Rightarrow> timestamp \<Rightarrow> conversion_row \<Rightarrow> conversion_row" where
  "set_failed video_path error_message now r =
     (if cr_file_path r = video_path \<and> cr_status r = Started
      then r\<lparr>cr_status := Failed, cr_error_message := Some error_message,
             cr_completed_at := Some now\<rparr>
      else r)"

definition update_conversions_failed :: "path \<Rightarrow> string \<Rightarrow> timestamp \<Rightarrow> conversion_database \<Rightarrow> conversion_database" where
  "update_conversions_failed video_path error_message now w =
     w\<lparr>conversions := map (set_failed video_path error_message now) (conversions w)\<rparr>"

definition update_statistics_failed :: "timestamp \<Rightarrow> conversion_database \<Rightarrow> conversion_database" where
  "update_statistics_failed now w =
     w\<lparr>statistics := (statistics w)
         \<lparr>failed_conversions := failed_conversions (statistics w) + 1, last_updated := now\<rparr>\<rparr>"

definition mark_failed :: "sql_fault \<Rightarrow> path \<Rightarrow> string \<Rightarrow> timestamp \<Rightarrow> conversion_database \<Rightarrow> py_error option \<times> conversion_database" where
  "mark_failed f video_path error_message now db =
     transaction f
       [update_conversions_failed video_path error_message now,
        update_statistics_failed now] db"

text \<open>\<^verbatim>\<open>SELECT COUNT(*) ... WHERE file_path = ? AND status = 'completed'\<close>, compared with 0.\<close>

definition is_converted :: "conversion_database \<Rightarrow> path \<Rightarrow> bool" where
  "is_converted db video_path =
     (length (filter (\<lambda>r. cr_file_path r = video_path \<and> cr_status r = Completed) (conversions db)) > 0)"

section \<open>Orchestrator filtering: \<^verbatim>\<open>_filter_conversions\<close>\<close>

text \<open>
  \<^verbatim>\<open>analysis_results\<close> is the dictionary built by \<^verbatim>\<open>_analyze_videos\<close>; a failed analysis is
  stored as \<^verbatim>\<open>None\<close>, which \<^verbatim>\<open>dict.get\<close> does not distinguish from a missing key. The loop
  keeps a file when its analysis exists, it is not already converted (unless \<^verbatim>\<open>force\<close>), and
  the analysis asks for a conversion.
\<close>

fun select_conversions :: "bool \<Rightarrow> conversion_database \<Rightarrow> (path \<rightharpoonup> video_analysis) \<Rightarrow> path list \<Rightarrow> (path \<times> video_analysis) list" where
  "select_conversions force db analysis_results [] = []"
| "select_conversions force db analysis_results (video # rest) =
     (case analysis_results video of
        None \<Rightarrow> select_conversions force db analysis_results rest
      | Some analysis \<Rightarrow>
          if \<not> force \<and> is_converted db video
          then select_conversions force db analysis_results rest
          else if needs_conversion analysis
          then (video, analysis) # select_conversions force db analysis_results rest
          else select_conversions force db analysis_results rest)"

text \<open>\<^verbatim>\<open>list.sort(key=file_size, reverse=True)\<close> is stable and descending: a stable ascending
  sort on the negated key.\<close>

definition filter_conversions :: "bool \<Rightarrow> conversion_database \<Rightarrow> path list \<Rightarrow> (path \<rightharpoonup> video_analysis) \<Rightarrow> (path \<times> video_analysis) list" where
  "filter_conversions force db video_files analysis_results =
     sort_key (\<lambda>x. - file_size (snd x)) (select_conversions force db analysis_results video_files)"

section \<open>Worker: \<^verbatim>\<open>core/worker_pool.py\<close>\<close>

record worker_metrics =
  worker_id :: nat
  current_task :: "string option"
  tasks_completed :: nat
  tasks_failed :: nat
  worker_processing_time :: real
  cpu_affinity :: "nat list"
  is_busy :: bool
  last_task_time :: "timestamp option"

text \<open>The metrics of a new worker (without CPU affinity).\<close>

definition new_worker_metrics :: "nat \<Rightarrow> worker_metrics" where
  "new_worker_metrics i =
     \<lparr>worker_id = i, current_task = None, tasks_completed = 0, tasks_failed = 0,
      worker_processing_time = 0, cpu_affinity = [], is_busy = False, last_task_time = None\<rparr>"

text \<open>The dictionary returned by \<^verbatim>\<open>VideoEncoder.convert_video\<close> on success.\<close>

record conversion_dict =
  output_path :: path
  output_size :: int
  conv_duration :: real
  success :: bool

text \<open>
  What one call of \<^verbatim>\<open>convert_video\<close> does: it returns the dictionary, returns \<^verbatim>\<open>None\<close>
  (output not smaller than the input with \<^verbatim>\<open>skip_if_larger\<close>), raises \<^verbatim>\<open>ConversionError\<close>,
  raises another \<^verbatim>\<open>Exception\<close> (from the code before its \<^verbatim>\<open>try\<close>), or is interrupted by
  an exception that is not an \<^verbatim>\<open>Exception\<close> (cancellation).
\<close>

datatype encoder_outcome =
    Returned "conversion_dict option"
  | ConversionErrorRaised string
  | ExceptionRaised string
  | BaseExceptionRaised string

text \<open>\<^verbatim>\<open>Path.name\<close>: the last component of the path; the path \<^verbatim>\<open>.\<close> and the root have the
  empty name.\<close>

definition path_name :: "path \<Rightarrow> string" where
  "path_name p =
     (if p = ''.'' then [] else rev (takeWhile (\<lambda>c. c \<noteq> CHR ''/'') (rev p)))"

text \<open>
  \<^verbatim>\<open>Worker.process\<close> holds the worker's semaphore for its whole body. \<open>process_enter\<close> is the
  part before the encoder is awaited, \<open>process_finish\<close> the part after it, \<^verbatim>\<open>finally\<close> block
  included. The result is \<open>Inr\<close> of the returned value, or \<open>Inl\<close> of an exception that
  leaves \<^verbatim>\<open>process\<close>.
\<close>

definition process_enter :: "worker_metrics \<Rightarrow> path \<Rightarrow> worker_metrics" where
  "process_enter m video_path = m\<lparr>is_busy := True, current_task := Some (path_name video_path)\<rparr>"

definition process_finally :: "worker_metrics \<Rightarrow> worker_metrics" where
  "process_finally m = m\<lparr>is_busy := False, current_task := None\<rparr>"

fun process_finish :: "worker_metrics \<Rightarrow> encoder_outcome \<Rightarrow> real \<Rightarrow> timestamp \<Rightarrow> (string + conversion_dict option) \<times> worker_metrics" where
  "process_finish m (Returned result) processing_time now =
     (Inr result,
      process_finally (m\<lparr>tasks_completed := tasks_completed m + 1,
                         worker_processing_time := worker_processing_time m + processing_time,
                         last_task_time := Some now\<rparr>))"
| "process_finish m (ConversionErrorRaised e) processing_time now =
     (Inr None, process_finally (m\<lparr>tasks_failed := tasks_failed m + 1\<rparr>))"
| "process_finish m (ExceptionRaised e) processing_time now =
     (Inr None, process_finally (m\<lparr>tasks_failed := tasks_failed m + 1\<rparr>))"
| "process_finish m (BaseExceptionRaised e) processing_time now =
     (Inl e, process_finally m)"

definition process :: "worker_metrics \<Rightarrow> path \<Rightarrow> encoder_outcome \<Rightarrow> real \<Rightarrow> timestamp \<Rightarrow> (string + conversion_dict option) \<times> worker_metrics" where
  "process m video_path outcome processing_time now =
     process_finish (process_enter m video_path) outcome processing_time now"

text \<open>The invariant of the worker metrics: \<^verbatim>\<open>is_busy == (current_task is not None)\<close>.\<close>

definition metrics_invariant :: "worker_metrics \<Rightarrow> bool" where
  "metrics_invariant m = (is_busy m = (current_task m \<noteq> None))"

section \<open>WorkerPool\<close>

text \<open>
  The pool runs on one asyncio event loop: a task runs without interruption between two
  suspension points. A task of \<^verbatim>\<open>_process_task\<close> is suspended either in the polling sleep of
  \<^verbatim>\<open>_get_available_worker\<close> (\<open>Waiting\<close>, also before its first step) or inside
  \<^verbatim>\<open>Worker.process\<close> while the encoder runs (\<open>Running w\<close> on worker \<open>w\<close>); \<open>Done\<close> holds
  what the task returned (\<open>Inr\<close>) or raised (\<open>Inl\<close>). The worker's semaphore is held exactly
  while the worker is busy, so a task that found an idle worker never waits for it.
\<close>

datatype task_stage = Waiting | Running nat | Done "string + conversion_dict option"

record pool_task =
  task_job :: "path \<times> video_analysis"
  task_stage :: task_stage

record pool_state =
  workers :: "worker_metrics list"
  tasks :: "pool_task list"
  shutdown_event :: bool

definition new_worker_pool :: "nat \<Rightarrow> pool_state" where
  "new_worker_pool max_workers =
     \<lparr>workers = map new_worker_metrics [0..<max_workers], tasks = [], shutdown_event = False\<rparr>"

text \<open>\<^verbatim>\<open>submit\<close> creates the task; it runs when the event loop gets to it.\<close>

definition submit :: "pool_state \<Rightarrow> path \<times> video_analysis \<Rightarrow> pool_state" where
  "submit pool job = pool\<lparr>tasks := tasks pool @ [\<lparr>task_job = job, task_stage = Waiting\<rparr>]\<rparr>"

text \<open>The \<^verbatim>\<open>for\<close> loop of \<^verbatim>\<open>_get_available_worker\<close>: the first worker that is not busy.\<close>

fun first_idle :: "worker_metrics list \<Rightarrow> nat option" where
  "first_idle [] = None"
| "first_idle (w # ws) = (if \<not> is_busy w then Some 0 else map_option Suc (first_idle ws))"

text \<open>
  One step of a waiting task \<open>i\<close>, from where it is suspended to its next suspension point:
  \<^verbatim>\<open>_get_available_worker\<close> checks the event and the workers; after a shutdown it returns
  \<^verbatim>\<open>workers[0]\<close> and \<^verbatim>\<open>_process_task\<close> returns \<^verbatim>\<open>None\<close>; with an idle worker
  \<^verbatim>\<open>_process_task\<close> re-checks the event and enters \<^verbatim>\<open>Worker.process\<close> up to the await of the
  encoder; without one the task sleeps again.
\<close>

definition wake :: "pool_state \<Rightarrow> nat \<Rightarrow> pool_state" where
  "wake pool i =
     (if i < length (tasks pool) \<and> task_stage (tasks pool ! i) = Waiting then
        (if shutdown_event pool then
           (if workers pool = []
            then pool\<lparr>tasks := (tasks pool)[i := (tasks pool ! i)\<lparr>task_stage := Done (Inl ''IndexError'')\<rparr>]\<rparr>
            else pool\<lparr>tasks := (tasks pool)[i := (tasks pool ! i)\<lparr>task_stage := Done (Inr None)\<rparr>]\<rparr>)
         else
           (case first_idle (workers pool) of
              None \<Rightarrow> pool
            | Some w \<Rightarrow>
                pool\<lparr>workers := (workers pool)[w := process_enter (workers pool ! w) (fst (task_job (tasks pool ! i)))],
                     tasks := (tasks pool)[i := (tasks pool ! i)\<lparr>task_stage := Running w\<rparr>]\<rparr>))
      else pool)"

text \<open>The encoder of running task \<open>i\<close> ends: the rest of \<^verbatim>\<open>Worker.process\<close> runs and the
  task resolves.\<close>

definition encoder_done :: "pool_state \<Rightarrow> nat \<Rightarrow> encoder_outcome \<Rightarrow> real \<Rightarrow> timestamp \<Rightarrow> pool_state" where
  "encoder_done pool i outcome processing_time now =
     (if i < length (tasks pool) then
        (case task_stage (tasks pool ! i) of
           Running w \<Rightarrow>
             (if w < length (workers pool) then
                (let (r, m) = process_finish (workers pool ! w) outcome processing_time now
                 in pool\<lparr>workers := (workers pool)[w := m],
                         tasks := (tasks pool)[i := (tasks pool ! i)\<lparr>task_stage := Done r\<rparr>]\<rparr>)
              else pool)
         | _ \<Rightarrow> pool)
      else pool)"

text \<open>\<^verbatim>\<open>shutdown\<close> sets the event; with \<^verbatim>\<open>wait\<close> it then only awaits the active tasks.\<close>

definition shutdown :: "pool_state \<Rightarrow> pool_state" where
  "shutdown pool = pool\<lparr>shutdown_event := True\<rparr>"

datatype pool_event =
    Submit "path \<times> video_analysis"
  | Wake nat
  | EncoderDone nat encoder_outcome real timestamp
  | Shutdown

fun pool_step :: "pool_state \<Rightarrow> pool_event \<Rightarrow> pool_state" where
  "pool_step pool (Submit job) = submit pool job"
| "pool_step pool (Wake i) = wake pool i"
| "pool_step pool (EncoderDone i outcome processing_time now) =
     encoder_done pool i outcome processing_time now"
| "pool_step pool Shutdown = shutdown pool"

definition pool_run :: "pool_state \<Rightarrow> pool_event list \<Rightarrow> pool_state" where
  "pool_run pool events = foldl pool_step pool events"










section \<open>StateStore: \<^verbatim>\<open>persistence/state_manager.py\<close>\<close>

text \<open>
  The state is a Python dictionary; a key may be absent, and reading an absent key with
  \<^verbatim>\<open>d[k]\<close> raises \<^verbatim>\<open>KeyError\<close>. Every key that the module or the orchestrator uses is an
  optional field. \<^verbatim>\<open>job_metadata\<close> holds two optional dictionaries from path to a message with
  its timestamp.
\<close>

record reason_entry =
  entry_text :: string
  entry_timestamp :: timestamp

record job_metadata =
  errors :: "(path \<rightharpoonup> reason_entry) option"
  skipped_reasons :: "(path \<rightharpoonup> reason_entry) option"

record state_dict =
  sd_version :: "nat option"
  sd_created_at :: "timestamp option"
  sd_updated_at :: "timestamp option"
  sd_pending :: "path list option"
  sd_completed :: "path set option"
  sd_failed :: "path set option"
  sd_skipped :: "path set option"
  sd_job_metadata :: "job_metadata option"
  sd_timestamp :: "timestamp option"

text \<open>\<open>state_file\<close> is the content of the pickle file (\<open>None\<close>: no file); \<open>disk_ok\<close> says
  whether writing the file succeeds.\<close>

record state_store =
  current_state :: state_dict
  state_file :: "state_dict option"
  disk_ok :: bool

definition default_state :: "timestamp \<Rightarrow> state_dict" where
  "default_state now =
     \<lparr>sd_version = Some 1, sd_created_at = Some now, sd_updated_at = Some now,
      sd_pending = Some [], sd_completed = Some {}, sd_failed = Some {}, sd_skipped = Some {},
      sd_job_metadata = Some \<lparr>errors = None, skipped_reasons = None\<rparr>, sd_timestamp = None\<rparr>"

definition new_state_store :: "state_dict option \<Rightarrow> bool \<Rightarrow> timestamp \<Rightarrow> state_store" where
  "new_state_store file ok now =
     \<lparr>current_state = default_state now, state_file = file, disk_ok = ok\<rparr>"

text \<open>\<^verbatim>\<open>load\<close>: no file, or a dictionary without \<^verbatim>\<open>version\<close>, gives \<^verbatim>\<open>None\<close>.\<close>

definition load :: "state_store \<Rightarrow> state_dict option \<times> state_store" where
  "load sm =
     (case state_file sm of
        None \<Rightarrow> (None, sm)
      | Some state \<Rightarrow>
          if sd_version state = None then (None, sm)
          else (Some state, sm\<lparr>current_state := state\<rparr>))"

text \<open>\<^verbatim>\<open>save\<close>: the result is the error raised, if any, and the store afterwards.\<close>

definition save :: "state_dict option \<Rightarrow> timestamp \<Rightarrow> state_store \<Rightarrow> py_error option \<times> state_store" where
  "save state now sm =
     (let cs = (case state of Some s \<Rightarrow> s | None \<Rightarrow> current_state sm)\<lparr>sd_updated_at := Some now\<rparr>;
          sm1 = sm\<lparr>current_state := cs\<rparr>
      in if disk_ok sm then (None, sm1\<lparr>state_file := Some cs\<rparr>)
         else (Some FileSystemError, sm1))"

text \<open>\<^verbatim>\<open>StateManager.mark_completed\<close>. \<^verbatim>\<open>list.remove\<close> deletes the first occurrence.\<close>

definition state_mark_completed :: "path \<Rightarrow> timestamp \<Rightarrow> state_store \<Rightarrow> py_error option \<times> state_store" where
  "state_mark_completed file_str now sm =
     (case sd_pending (current_state sm) of
        None \<Rightarrow> (Some (KeyError ''pending''), sm)
      | Some pending \<Rightarrow>
          (let sm1 = sm\<lparr>current_state := (current_state sm)\<lparr>sd_pending := Some (remove1 file_str pending)\<rparr>\<rparr>
           in case sd_completed (current_state sm1) of
                None \<Rightarrow> (Some (KeyError ''completed''), sm1)
              | Some finished \<Rightarrow>
                  (let sm2 = sm1\<lparr>current_state := (current_state sm1)\<lparr>sd_completed := Some (insert file_str finished)\<rparr>\<rparr>
                   in case sd_failed (current_state sm2) of
                        None \<Rightarrow> (Some (KeyError ''failed''), sm2)
                      | Some bad \<Rightarrow>
                          save None now
                            (sm2\<lparr>current_state := (current_state sm2)\<lparr>sd_failed := Some (bad - {file_str})\<rparr>\<rparr>))))"

text \<open>\<^verbatim>\<open>StateManager.mark_failed\<close>.\<close>

definition state_mark_failed :: "path \<Rightarrow> string \<Rightarrow> timestamp \<Rightarrow> state_store \<Rightarrow> py_error option \<times> state_store" where
  "state_mark_failed file_str error now sm =
     (case sd_pending (current_state sm) of
        None \<Rightarrow> (Some (KeyError ''pending''), sm)
      | Some pending \<Rightarrow>
          (let sm1 = sm\<lparr>current_state := (current_state sm)\<lparr>sd_pending := Some (remove1 file_str pending)\<rparr>\<rparr>
           in case sd_failed (current_state sm1) of
                None \<Rightarrow> (Some (KeyError ''failed''), sm1)
              | Some bad \<Rightarrow>
                  (let sm2 = sm1\<lparr>current_state := (current_state sm1)\<lparr>sd_failed := Some (insert file_str bad)\<rparr>\<rparr>
                   in case sd_job_metadata (current_state sm2) of
                        None \<Rightarrow> (Some (KeyError ''job_metadata''), sm2)
                      | Some meta \<Rightarrow>
                          (let errs = (case errors meta of None \<Rightarrow> Map.empty | Some e \<Rightarrow> e);
                               entry = \<lparr>entry_text = error, entry_timestamp = now\<rparr>;
                               meta1 = meta\<lparr>errors := Some (errs(file_str \<mapsto> entry))\<rparr>
                           in save None now
                                (sm2\<lparr>current_state := (current_state sm2)\<lparr>sd_job_metadata := Some meta1\<rparr>\<rparr>)))))"

section \<open>Orchestrator: \<^verbatim>\<open>core/orchestrator.py\<close>\<close>

text \<open>
  The collaborators outside the core are parameters: the scanner (\<^verbatim>\<open>_scan_paths\<close>), the
  analyzer (\<open>Inl\<close>: \<^verbatim>\<open>AnalysisError\<close>) and the size estimate \<^verbatim>\<open>int(file_size * 0.6)\<close> of the
  preview. The orchestrator is modelled on a database whose statements succeed
  (\<open>NoFault\<close>); an interrupt from the keyboard is not modelled.
\<close>

record environment =
  scan_paths :: "path list \<Rightarrow> path list"
  analyze_video :: "path \<Rightarrow> string + video_analysis"
  estimated_size :: "int \<Rightarrow> int"

record preview_summary =
  total_files :: nat
  total_size :: int
  estimated_output :: int
  total_savings :: int

record orchestrator =
  dry_run :: bool
  force :: bool
  database :: conversion_database
  state_manager :: state_store
  worker_pool :: pool_state
  start_time :: "timestamp option"
  logged_preview :: "preview_summary option"

text \<open>\<^verbatim>\<open>_analyze_videos\<close>: the analyses are gathered batch by batch and handled in the order of
  the files; a failed analysis is recorded as \<^verbatim>\<open>None\<close>, a successful one is also cached in
  table \<^verbatim>\<open>videos\<close>.\<close>

fun analyze_videos :: "environment \<Rightarrow> timestamp \<Rightarrow> path list \<Rightarrow> (path \<rightharpoonup> video_analysis) \<Rightarrow> conversion_database \<Rightarrow> py_error option \<times> (path \<rightharpoonup> video_analysis) \<times> conversion_database" where
  "analyze_videos env now [] results db = (None, results, db)"
| "analyze_videos env now (video # rest) results db =
     (case analyze_video env video of
        Inl e \<Rightarrow> analyze_videos env now rest (results(video := None)) db
      | Inr result \<Rightarrow>
          (case store_analysis NoFault video result now db of
             (Some e, db1) \<Rightarrow> (Some e, results(video \<mapsto> result), db1)
           | (None, db1) \<Rightarrow> analyze_videos env now rest (results(video \<mapsto> result)) db1))"

text \<open>\<^verbatim>\<open>_dry_run_preview\<close>: the percentage logged for each file divides by its size, the one of
  the summary by the total size.\<close>

fun preview_loop :: "(int \<Rightarrow> int) \<Rightarrow> (path \<times> video_analysis) list \<Rightarrow> int \<Rightarrow> int \<Rightarrow> py_error + (int \<times> int)" where
  "preview_loop est [] tot out = Inr (tot, out)"
| "preview_loop est ((video_path, analysis) # rest) tot out =
     (if file_size analysis = 0 then Inl ZeroDivisionError
      else preview_loop est rest (tot + file_size analysis) (out + est (file_size analysis)))"

definition dry_run_preview :: "(int \<Rightarrow> int) \<Rightarrow> (path \<times> video_analysis) list \<Rightarrow> py_error + preview_summary" where
  "dry_run_preview est convs =
     (case preview_loop est convs 0 0 of
        Inl e \<Rightarrow> Inl e
      | Inr (tot, out) \<Rightarrow>
          if tot = 0 then Inl ZeroDivisionError
          else Inr \<lparr>total_files = length convs, total_size = tot,
                    estimated_output = out, total_savings = tot - out\<rparr>)"

text \<open>\<^verbatim>\<open>get_statistics\<close>: the columns of the statistics row as a dictionary, then the derived
  entries.\<close>

definition get_statistics :: "conversion_database \<Rightarrow> (string \<times> real) list" where
  "get_statistics db =
     (let s = statistics db in
      [(''id'', 1),
       (''total_conversions'', real_of_int (total_conversions s)),
       (''successful_conversions'', real_of_int (successful_conversions s)),
       (''failed_conversions'', real_of_int (failed_conversions s)),
       (''skipped_conversions'', real_of_int (skipped_conversions s)),
       (''total_original_size'', real_of_int (total_original_size s)),
       (''total_converted_size'', real_of_int (total_converted_size s)),
       (''total_space_saved'', real_of_int (total_space_saved s)),
       (''total_processing_time'', total_processing_time s),
       (''last_updated'', real (last_updated s))] @
      (if successful_conversions s > 0 then
         [(''avg_savings_percent'',
             if total_original_size s > 0
             then real_of_int (total_space_saved s) / real_of_int (total_original_size s) * 100 else 0),
          (''avg_compression_ratio'',
             if total_original_size s > 0
             then real_of_int (total_converted_size s) / real_of_int (total_original_size s) else 1),
          (''avg_processing_time'',
             total_processing_time s / real_of_int (successful_conversions s))]
       else
         [(''avg_savings_percent'', 0), (''avg_compression_ratio'', 1),
          (''avg_processing_time'', 0)]))"

text \<open>\<^verbatim>\<open>_print_summary\<close>: the elapsed time needs \<^verbatim>\<open>start_time\<close>, then the summary reads
  \<^verbatim>\<open>stats['total_savings']\<close> and \<^verbatim>\<open>stats['avg_savings_percent']\<close>.\<close>

definition print_summary :: "timestamp option \<Rightarrow> conversion_database \<Rightarrow> py_error option" where
  "print_summary start db =
     (case start of
        None \<Rightarrow> Some TypeError
      | Some t \<Rightarrow>
          (case map_of (get_statistics db) ''total_savings'' of
             None \<Rightarrow> Some (KeyError ''total_savings'')
           | Some v \<Rightarrow>
               (case map_of (get_statistics db) ''avg_savings_percent'' of
                  None \<Rightarrow> Some (KeyError ''avg_savings_percent'')
                | Some w \<Rightarrow> None)))"

text \<open>
  A value of the list that \<^verbatim>\<open>asyncio.gather(*tasks, return_exceptions=True)\<close> returns: an
  exception, \<^verbatim>\<open>None\<close>, a result dictionary, or a task object (\<open>ResTask i\<close>: the pool's task
  \<open>i\<close>).
\<close>

datatype gather_result =
    ResException string
  | ResNone
  | ResDict conversion_dict
  | ResTask nat

record loop_state =
  ls_database :: conversion_database
  ls_state_manager :: state_store
  successful :: nat
  failed :: nat
  skipped :: nat

text \<open>
  The loop over \<^verbatim>\<open>zip(conversions, results)\<close> of \<^verbatim>\<open>_execute_conversions\<close>. Subscripting a
  value that is neither an exception, \<^verbatim>\<open>None\<close> nor a dictionary raises \<^verbatim>\<open>TypeError\<close> while
  the arguments of \<^verbatim>\<open>mark_completed\<close> are evaluated. The result is the error that ended the
  loop, if any, and the state reached.
\<close>

fun process_results :: "timestamp \<Rightarrow> ((path \<times> video_analysis) \<times> gather_result) list \<Rightarrow> loop_state \<Rightarrow> py_error option \<times> loop_state" where
  "process_results now [] s = (None, s)"
| "process_results now (((video_path, analysis), ResException msg) # rest) s =
     (case mark_failed NoFault video_path msg now (ls_database s) of
        (Some e, db1) \<Rightarrow> (Some e, s\<lparr>ls_database := db1\<rparr>)
      | (None, db1) \<Rightarrow>
          process_results now rest (s\<lparr>ls_database := db1, failed := failed s + 1\<rparr>))"
| "process_results now (((video_path, analysis), ResNone) # rest) s =
     process_results now rest (s\<lparr>skipped := skipped s + 1\<rparr>)"
| "process_results now (((video_path, analysis), ResDict result) # rest) s =
     (case mark_completed NoFault video_path (file_size analysis) (output_size result)
             (conv_duration result) now (ls_database s) of
        (Some e, db1) \<Rightarrow> (Some e, s\<lparr>ls_database := db1\<rparr>)
      | (None, db1) \<Rightarrow>
          (case state_mark_completed video_path now (ls_state_manager s) of
             (Some e, sm1) \<Rightarrow>
               (Some e, s\<lparr>ls_database := db1, ls_state_manager := sm1, successful := successful s + 1\<rparr>)
           | (None, sm1) \<Rightarrow>
               process_results now rest
                 (s\<lparr>ls_database := db1, ls_state_manager := sm1, successful := successful s + 1\<rparr>)))"
| "process_results now (((video_path, analysis), ResTask t) # rest) s = (Some TypeError, s)"

text \<open>The dictionary that \<^verbatim>\<open>_execute_conversions\<close> saves: the keys \<^verbatim>\<open>pending\<close> and
  \<^verbatim>\<open>timestamp\<close> only.\<close>

definition pending_state :: "(path \<times> video_analysis) list \<Rightarrow> timestamp \<Rightarrow> state_dict" where
  "pending_state convs now =
     \<lparr>sd_version = None, sd_created_at = None, sd_updated_at = None,
      sd_pending = Some (map fst convs), sd_completed = None, sd_failed = None,
      sd_skipped = None, sd_job_metadata = None, sd_timestamp = Some now\<rparr>"

text \<open>
  \<^verbatim>\<open>_execute_conversions\<close>. \<^verbatim>\<open>WorkerPool.submit\<close> is a coroutine function and is called
  without \<^verbatim>\<open>await\<close>, so the awaitables given to \<^verbatim>\<open>gather\<close> are the \<^verbatim>\<open>submit\<close> coroutines:
  each creates its pool task and returns it, and \<^verbatim>\<open>results\<close> is the list of these task
  objects.
\<close>

definition execute_conversions :: "timestamp \<Rightarrow> (path \<times> video_analysis) list \<Rightarrow> orchestrator \<Rightarrow> (py_error + bool) \<times> orchestrator" where
  "execute_conversions now convs orch =
     (case save (Some (pending_state convs now)) now (state_manager orch) of
        (Some e, sm1) \<Rightarrow> (Inl e, orch\<lparr>state_manager := sm1\<rparr>)
      | (None, sm1) \<Rightarrow>
          (let n = length (tasks (worker_pool orch));
               pool1 = foldl submit (worker_pool orch) convs;
               results = map ResTask [n ..< n + length convs];
               s0 = \<lparr>ls_database = database orch, ls_state_manager = sm1,
                     successful = 0, failed = 0, skipped = 0\<rparr>
           in case process_results now (zip convs results) s0 of
                (Some e, s) \<Rightarrow>
                  (Inl e, orch\<lparr>database := ls_database s, state_manager := ls_state_manager s,
                               worker_pool := pool1\<rparr>)
              | (None, s) \<Rightarrow>
                  (let orch1 = orch\<lparr>database := ls_database s, state_manager := ls_state_manager s,
                                     worker_pool := pool1\<rparr>
                   in case print_summary (start_time orch) (ls_database s) of
                        Some e \<Rightarrow> (Inl e, orch1)
                      | None \<Rightarrow> (Inr (failed s = 0), orch1))))"

text \<open>The body of the \<^verbatim>\<open>try\<close> of \<^verbatim>\<open>run\<close>.\<close>

definition run_steps :: "environment \<Rightarrow> timestamp \<Rightarrow> path list \<Rightarrow> orchestrator \<Rightarrow> (py_error + bool) \<times> orchestrator" where
  "run_steps env now paths orch =
     (let video_files = scan_paths env paths in
      if video_files = [] then (Inr False, orch)
      else
        (case analyze_videos env now video_files Map.empty (database orch) of
           (Some e, analysis_results, db1) \<Rightarrow> (Inl e, orch\<lparr>database := db1\<rparr>)
         | (None, analysis_results, db1) \<Rightarrow>
             (let orch1 = orch\<lparr>database := db1\<rparr>;
                  conversions_needed = filter_conversions (force orch) db1 video_files analysis_results
              in if conversions_needed = [] then (Inr True, orch1)
                 else if dry_run orch then
                   (case dry_run_preview (estimated_size env) conversions_needed of
                      Inl e \<Rightarrow> (Inl e, orch1)
                    | Inr summary \<Rightarrow> (Inr True, orch1\<lparr>logged_preview := Some summary\<rparr>))
                 else execute_conversions now conversions_needed orch1)))"

text \<open>The list \<^verbatim>\<open>conversions_needed\<close> that steps 1 to 3 of \<^verbatim>\<open>run\<close> compute.\<close>

definition conversions_needed :: "environment \<Rightarrow> timestamp \<Rightarrow> path list \<Rightarrow> orchestrator \<Rightarrow> (path \<times> video_analysis) list" where
  "conversions_needed env now paths orch =
     (case analyze_videos env now (scan_paths env paths) Map.empty (database orch) of
        (e, analysis_results, db1) \<Rightarrow>
          filter_conversions (force orch) db1 (scan_paths env paths) analysis_results)"

text \<open>\<^verbatim>\<open>_cleanup\<close> and \<^verbatim>\<open>_finalize\<close> shut the pool down (the metrics report and the closing of
  the database touch neither store). \<^verbatim>\<open>shutdown\<close> then awaits the active tasks: the steps
  that the pool's tasks take while the orchestrator awaits them are the events of the pool
  above; they change the pool only and are not repeated here, so the pool that the model of
  a run leaves is the pool at the moment the event is set.\<close>

definition cleanup :: "orchestrator \<Rightarrow> orchestrator" where
  "cleanup orch = orch\<lparr>worker_pool := shutdown (worker_pool orch)\<rparr>"

definition finalize :: "orchestrator \<Rightarrow> orchestrator" where
  "finalize orch = orch\<lparr>worker_pool := shutdown (worker_pool orch)\<rparr>"

text \<open>\<^verbatim>\<open>run\<close>: an exception of the steps is caught, the resources are cleaned up and the
  run returns \<^verbatim>\<open>False\<close>.\<close>

definition run :: "environment \<Rightarrow> timestamp \<Rightarrow> path list \<Rightarrow> orchestrator \<Rightarrow> bool \<times> orchestrator" where
  "run env now paths orch =
     (case run_steps env now paths (orch\<lparr>start_time := Some now\<rparr>) of
        (Inl e, orch1) \<Rightarrow> (False, finalize (cleanup orch1))
      | (Inr b, orch1) \<Rightarrow> (b, finalize orch1))"

text \<open>\<^verbatim>\<open>resume\<close> has no \<^verbatim>\<open>try\<close>: an exception of \<^verbatim>\<open>_execute_conversions\<close> leaves it.\<close>

definition resume :: "timestamp \<Rightarrow> orchestrator \<Rightarrow> (py_error + bool) \<times> orchestrator" where
  "resume now orch =
     (case load (state_manager orch) of
        (None, sm1) \<Rightarrow> (Inr False, orch\<lparr>state_manager := sm1\<rparr>)
      | (Some state, sm1) \<Rightarrow>
          (let orch1 = orch\<lparr>state_manager := sm1\<rparr> in
           case sd_pending state of
             None \<Rightarrow> (Inr False, orch1)
           | Some pending_files \<Rightarrow>
               if pending_files = [] then (Inr False, orch1)
               else
                 (let conversions_needed =
                        List.map_filter
                          (\<lambda>p. map_option (Pair p) (get_analysis (database orch1) p)) pending_files
                  in if conversions_needed = [] then (Inr False, orch1)
                     else execute_conversions now conversions_needed orch1)))"

definition new_orchestrator :: "bool \<Rightarrow> bool \<Rightarrow> conversion_database \<Rightarrow> state_store \<Rightarrow> nat \<Rightarrow> orchestrator" where
  "new_orchestrator dry frc db sm max_workers =
     \<lparr>dry_run = dry, force = frc, database = db, state_manager = sm,
      worker_pool = new_worker_pool max_workers, start_time = None, logged_preview = None\<rparr>"


section \<open>Sample data for the scenarios\<close>

definition sample_analysis :: "path \<Rightarrow> int \<Rightarrow> bool \<Rightarrow> video_analysis" where
  "sample_analysis p n needed =
     \<lparr>file_path = p, video_codec = ''h264'', audio_codec = ''aac'', container = ''mov'',
      resolution = ''1920x1080'', width = 1920, height = 1080, fps = 30, duration = 60,
      bitrate = 8000000, file_size = n, needs_conversion = needed, reason = ''codec'',
      probe_data = ''{}''\<rparr>"

text \<open>An environment in which the listed files are the video files, each with the given
  analysis; a path that is not listed fails to analyse.\<close>

definition sample_env :: "(path \<times> video_analysis) list \<Rightarrow> environment" where
  "sample_env files =
     \<lparr>scan_paths = filter (\<lambda>p. map_of files p \<noteq> None),
      analyze_video = (\<lambda>p. case map_of files p of None \<Rightarrow> Inl ''ffprobe failed'' | Some a \<Rightarrow> Inr a),
      estimated_size = (\<lambda>n. n * 6 div 10)\<rparr>"


text \<open>A fresh orchestrator: empty tables, no state file, one worker.\<close>

definition fresh_orchestrator :: "bool \<Rightarrow> bool \<Rightarrow> orchestrator" where
  "fresh_orchestrator dry frc =
     new_orchestrator dry frc (initial_database 0) (new_state_store None True 0) 1"

definition completed_row :: "path \<Rightarrow> conversion_row" where
  "completed_row p =
     \<lparr>cr_id = 1, cr_video_id = 1, cr_file_path = p, cr_status = Completed,
      cr_original_size = 500, cr_converted_size = Some 300, cr_compression_ratio = Some (3 / 5),
      cr_space_saved = Some 200, cr_processing_time = Some 12, cr_error_message = None,
      cr_started_at = Some 0, cr_completed_at = Some 1\<rparr>"

definition started_row :: "path \<Rightarrow> conversion_row" where
  "started_row p =
     \<lparr>cr_id = 1, cr_video_id = 1, cr_file_path = p, cr_status = Started,
      cr_original_size = 500, cr_converted_size = None, cr_compression_ratio = None,
      cr_space_saved = None, cr_processing_time = None, cr_error_message = None,
      cr_started_at = Some 0, cr_completed_at = None\<rparr>"






text \<open>One file that needs conversion, for the runs of one job.\<close>

definition file_x :: "path \<times> video_analysis" where
  "file_x = (''/v/x.mkv'', sample_analysis ''/v/x.mkv'' 500 True)"

text \<open>A second process on the stores that a run left: a new orchestrator on the same
  database and the same state file.\<close>

definition next_process :: "orchestrator \<Rightarrow> orchestrator" where
  "next_process orch =
     new_orchestrator (dry_run orch) (force orch) (database orch)
       (new_state_store (state_file (state_manager orch)) True 1) 1"

section \<open>Properties of the filtering step\<close>

lemma set_select_conversions:
  "set (select_conversions frc db analysis_results video_files) =
     {(v, a). v \<in> set video_files \<and> analysis_results v = Some a \<and> needs_conversion a \<and>
              (frc \<or> \<not> is_converted db v)}"
  by (induction video_files) (auto split: option.splits)

text \<open>
  Claim C1. A candidate file is scheduled (is an element of the list returned by
  \<^verbatim>\<open>_filter_conversions\<close>, paired with its analysis) if and only if its analysis succeeded with
  \<^verbatim>\<open>needs_conversion\<close> true and either \<^verbatim>\<open>frc\<close> is set or \<^verbatim>\<open>is_converted\<close> is false. The
  filter only returns that list: it writes no store and counts no failure.
\<close>

theorem filter_conversions_scheduled_iff:
  "(v, a) \<in> set (filter_conversions frc db video_files analysis_results) \<longleftrightarrow>
     v \<in> set video_files \<and> analysis_results v = Some a \<and> needs_conversion a \<and>
     (frc \<or> \<not> is_converted db v)"
  by (simp add: filter_conversions_def set_select_conversions)

theorem filter_conversions_scheduled_iff_witness:
  "(''/v/y.mkv'', sample_analysis ''/v/y.mkv'' 100 True)
     \<in> set (filter_conversions False ((initial_database 0)\<lparr>conversions := [completed_row ''/v/x.mkv'']\<rparr>)
              [''/v/x.mkv'', ''/v/y.mkv'']
              [''/v/x.mkv'' \<mapsto> sample_analysis ''/v/x.mkv'' 500 True,
               ''/v/y.mkv'' \<mapsto> sample_analysis ''/v/y.mkv'' 100 True])
   \<and> (''/v/x.mkv'', sample_analysis ''/v/x.mkv'' 500 True)
     \<notin> set (filter_conversions False ((initial_database 0)\<lparr>conversions := [completed_row ''/v/x.mkv'']\<rparr>)
              [''/v/x.mkv'', ''/v/y.mkv'']
              [''/v/x.mkv'' \<mapsto> sample_analysis ''/v/x.mkv'' 500 True,
               ''/v/y.mkv'' \<mapsto> sample_analysis ''/v/y.mkv'' 100 True])"
  using filter_conversions_scheduled_iff
          [of "''/v/y.mkv''" "sample_analysis ''/v/y.mkv'' 100 True" False
              "(initial_database 0)\<lparr>conversions := [completed_row ''/v/x.mkv'']\<rparr>"
              "[''/v/x.mkv'', ''/v/y.mkv'']"
              "[''/v/x.mkv'' \<mapsto> sample_analysis ''/v/x.mkv'' 500 True,
                ''/v/y.mkv'' \<mapsto> sample_analysis ''/v/y.mkv'' 100 True]"]
        filter_conversions_scheduled_iff
          [of "''/v/x.mkv''" "sample_analysis ''/v/x.mkv'' 500 True" False
              "(initial_database 0)\<lparr>conversions := [completed_row ''/v/x.mkv'']\<rparr>"
              "[''/v/x.mkv'', ''/v/y.mkv'']"
              "[''/v/x.mkv'' \<mapsto> sample_analysis ''/v/x.mkv'' 500 True,
                ''/v/y.mkv'' \<mapsto> sample_analysis ''/v/y.mkv'' 100 True]"]
  by (simp add: is_converted_def completed_row_def sample_analysis_def initial_database_def)

section \<open>Properties of \<^verbatim>\<open>ConversionDatabase.mark_completed\<close>\<close>

lemma run_statements_two:
  "run_statements 0 f [s1, s2] db =
     (if f = FailAt 0 \<or> f = FailAt 1 \<or> f = FailAt 2 then None else Some (s2 (s1 db)))"
  by (simp add: numeral_2_eq_2)

lemma mark_completed_cases:
  "mark_completed f p orig conv t now db =
     (if f = FailAt 0 \<or> f = FailAt 1 \<or> f = FailAt 2 then (Some DatabaseError, db)
      else (None, update_statistics_completed orig conv t now
                    (update_conversions_completed p orig conv t now db)))"
  by (simp add: mark_completed_def transaction_def run_statements_two)

lemma mark_failed_cases:
  "mark_failed f p msg now db =
     (if f = FailAt 0 \<or> f = FailAt 1 \<or> f = FailAt 2 then (Some DatabaseError, db)
      else (None, update_statistics_failed now (update_conversions_failed p msg now db)))"
  by (simp add: mark_failed_def transaction_def run_statements_two)

text \<open>
  Claim C5. \<^verbatim>\<open>mark_completed\<close> either commits or raises \<^verbatim>\<open>DatabaseError\<close>. When it commits,
  exactly the records of the path that were in status \<^verbatim>\<open>started\<close> are now completed (every
  other record is untouched) and the ledger has grown by one success, the two sizes, the
  space saved and the processing time. When it raises, at the first update, at the second
  or at the commit, the persisted tables are what they were: neither the record nor the
  ledger changed.
\<close>

theorem mark_completed_atomic:
  assumes "mark_completed f p orig conv t now db = (r, db')"
  shows "(r = None \<and>
          length (conversions db') = length (conversions db) \<and>
          (\<forall>i < length (conversions db).
             (cr_file_path (conversions db ! i) = p \<and> cr_status (conversions db ! i) = Started
                \<longrightarrow> cr_status (conversions db' ! i) = Completed \<and>
                    cr_converted_size (conversions db' ! i) = Some conv \<and>
                    cr_processing_time (conversions db' ! i) = Some t) \<and>
             (\<not> (cr_file_path (conversions db ! i) = p \<and> cr_status (conversions db ! i) = Started)
                \<longrightarrow> conversions db' ! i = conversions db ! i)) \<and>
          successful_conversions (statistics db') = successful_conversions (statistics db) + 1 \<and>
          total_original_size (statistics db') = total_original_size (statistics db) + orig \<and>
          total_converted_size (statistics db') = total_converted_size (statistics db) + conv \<and>
          total_space_saved (statistics db') = total_space_saved (statistics db) + (orig - conv) \<and>
          total_processing_time (statistics db') = total_processing_time (statistics db) + t)
       \<or> (r = Some DatabaseError \<and> db' = db)"
proof (cases "f = FailAt 0 \<or> f = FailAt 1 \<or> f = FailAt 2")
  case True
  with assms show ?thesis by (simp add: mark_completed_cases)
next
  case False
  with assms have r: "r = None"
    and d: "db' = update_statistics_completed orig conv t now
                    (update_conversions_completed p orig conv t now db)"
    by (auto simp: mark_completed_cases)
  have c: "conversions db' = map (set_completed p orig conv t now) (conversions db)"
    by (simp add: d update_statistics_completed_def update_conversions_completed_def)
  have s: "statistics db' = (statistics db)
         \<lparr>successful_conversions := successful_conversions (statistics db) + 1,
          total_original_size := total_original_size (statistics db) + orig,
          total_converted_size := total_converted_size (statistics db) + conv,
          total_space_saved := total_space_saved (statistics db) + (orig - conv),
          total_processing_time := total_processing_time (statistics db) + t,
          last_updated := now\<rparr>"
    by (simp add: d update_statistics_completed_def update_conversions_completed_def)
  have rows: "\<forall>i < length (conversions db).
             (cr_file_path (conversions db ! i) = p \<and> cr_status (conversions db ! i) = Started
                \<longrightarrow> cr_status (conversions db' ! i) = Completed \<and>
                    cr_converted_size (conversions db' ! i) = Some conv \<and>
                    cr_processing_time (conversions db' ! i) = Some t) \<and>
             (\<not> (cr_file_path (conversions db ! i) = p \<and> cr_status (conversions db ! i) = Started)
                \<longrightarrow> conversions db' ! i = conversions db ! i)"
    by (simp add: c set_completed_def)
  show ?thesis
    using r rows by (simp add: c s)
qed

theorem mark_completed_atomic_witness:
  "cr_status (conversions (snd (mark_completed NoFault ''/v/x.mkv'' 500 300 12 1
       ((initial_database 0)\<lparr>conversions := [started_row ''/v/x.mkv'']\<rparr>))) ! 0) = Completed \<and>
   successful_conversions (statistics (snd (mark_completed NoFault ''/v/x.mkv'' 500 300 12 1
       ((initial_database 0)\<lparr>conversions := [started_row ''/v/x.mkv'']\<rparr>)))) = 1 \<and>
   snd (mark_completed (FailAt 1) ''/v/x.mkv'' 500 300 12 1
       ((initial_database 0)\<lparr>conversions := [started_row ''/v/x.mkv'']\<rparr>))
     = (initial_database 0)\<lparr>conversions := [started_row ''/v/x.mkv'']\<rparr>"
  using mark_completed_atomic [OF prod.collapse [symmetric], of NoFault "''/v/x.mkv''" 500 300 12 1
          "(initial_database 0)\<lparr>conversions := [started_row ''/v/x.mkv'']\<rparr>"]
        mark_completed_atomic [OF prod.collapse [symmetric], of "FailAt 1" "''/v/x.mkv''" 500 300 12 1
          "(initial_database 0)\<lparr>conversions := [started_row ''/v/x.mkv'']\<rparr>"]
  by (simp add: mark_completed_cases started_row_def initial_database_def default_statistics_def)

section \<open>Properties of the worker and the pool\<close>

lemma metrics_invariant_enter: "metrics_invariant (process_enter m p)"
  by (simp add: metrics_invariant_def process_enter_def)

lemma process_finish_idle:
  "is_busy (snd (process_finish m outcome t now)) = False \<and>
   current_task (snd (process_finish m outcome t now)) = None"
  by (cases outcome) (simp_all add: process_finally_def)

lemma metrics_invariant_finish: "metrics_invariant (snd (process_finish m outcome t now))"
  by (simp add: metrics_invariant_def process_finish_idle)


lemma list_all_update: "list_all P xs \<Longrightarrow> P x \<Longrightarrow> list_all P (xs[i := x])"
  by (induction xs arbitrary: i) (auto split: nat.splits)

lemma workers_invariant_step:
  assumes ok: "list_all metrics_invariant (workers pool)"
  shows "list_all metrics_invariant (workers (pool_step pool e))"
proof (cases e)
  case (Submit job)
  then show ?thesis using ok by (simp add: submit_def)
next
  case (Wake i)
  then show ?thesis using ok
    by (auto simp: wake_def list_all_update metrics_invariant_enter split: option.splits)
next
  case (EncoderDone i outcome t now)
  have "list_all metrics_invariant
          ((workers pool)[w := snd (process_finish (workers pool ! w) outcome t now)])" for w
    using ok by (simp add: list_all_update metrics_invariant_finish)
  then show ?thesis using EncoderDone ok
    by (auto simp: encoder_done_def split_def Let_def split: task_stage.splits)
next
  case Shutdown
  then show ?thesis using ok by (simp add: shutdown_def)
qed

lemma workers_invariant_run:
  "list_all metrics_invariant (workers pool) \<Longrightarrow>
   list_all metrics_invariant (workers (pool_run pool events))"
  unfolding pool_run_def
  by (induction events arbitrary: pool) (simp_all add: workers_invariant_step)

lemma workers_invariant_new: "list_all metrics_invariant (workers (new_worker_pool n))"
  by (simp add: new_worker_pool_def list_all_iff metrics_invariant_def new_worker_metrics_def)

text \<open>
  Claim C8. The metrics of a new worker satisfy \<^verbatim>\<open>is_busy == (current_task is not None)\<close>;
  they satisfy it while \<^verbatim>\<open>process\<close> waits for the encoder; every call of \<^verbatim>\<open>process\<close>,
  whatever the encoder did (result, \<^verbatim>\<open>None\<close>, \<^verbatim>\<open>ConversionError\<close>, another exception, an
  interruption), leaves \<^verbatim>\<open>is_busy\<close> false and \<^verbatim>\<open>current_task\<close> \<^verbatim>\<open>None\<close>; and in every state
  that a pool of \<open>n\<close> workers reaches, every worker satisfies the invariant.
\<close>

theorem worker_metrics_invariant:
  "metrics_invariant (new_worker_metrics i) \<and>
   metrics_invariant (process_enter m p) \<and>
   is_busy (snd (process m p outcome t now)) = False \<and>
   current_task (snd (process m p outcome t now)) = None \<and>
   metrics_invariant (snd (process m p outcome t now)) \<and>
   list_all metrics_invariant (workers (pool_run (new_worker_pool n) events))"
proof -
  have "metrics_invariant (new_worker_metrics i)"
    by (simp add: metrics_invariant_def new_worker_metrics_def)
  then show ?thesis
    using workers_invariant_run [OF workers_invariant_new, of n events]
    by (simp add: metrics_invariant_enter process_def process_finish_idle metrics_invariant_finish)
qed












section \<open>Properties of the ordering\<close>









section \<open>Properties of the orchestrator\<close>

lemma store_analysis_NoFault:
  "store_analysis NoFault p a now db = (None, insert_or_replace_video p a now db)"
  by (simp add: store_analysis_def transaction_def)

lemma analyze_videos_frame:
  "analyze_videos env now vs res db = (e, res', db') \<Longrightarrow>
     e = None \<and> conversions db' = conversions db \<and> statistics db' = statistics db \<and>
     conversions_seq db' = conversions_seq db"
proof (induction vs arbitrary: res db)
  case Nil
  then show ?case by simp
next
  case (Cons v vs)
  show ?case
  proof (cases "analyze_video env v")
    case (Inl msg)
    with Cons show ?thesis by simp
  next
    case (Inr a)
    with Cons.prems have
      "analyze_videos env now vs (res(v \<mapsto> a)) (insert_or_replace_video v a now db) = (e, res', db')"
      by (simp add: store_analysis_NoFault)
    from Cons.IH [OF this] show ?thesis
      by (simp add: insert_or_replace_video_def)
  qed
qed

lemma analyze_videos_no_error:
  "fst (analyze_videos env now vs res db) = None"
  using analyze_videos_frame [of env now vs res db] by (metis prod.collapse)

lemma get_statistics_total_savings: "map_of (get_statistics db) ''total_savings'' = None"
  by (simp add: get_statistics_def Let_def)

lemma print_summary_raises: "print_summary st db \<noteq> None"
  by (simp add: print_summary_def get_statistics_total_savings split: option.splits)

lemma process_results_tasks:
  "process_results now (zip convs (map ResTask ks)) s =
     (if convs = [] \<or> ks = [] then (None, s) else (Some TypeError, s))"
proof (cases convs)
  case Nil
  then show ?thesis by simp
next
  case (Cons c cs)
  obtain p a where "c = (p, a)" by (cases c)
  with Cons show ?thesis by (cases ks) simp_all
qed

text \<open>\<^verbatim>\<open>_execute_conversions\<close> saves the pending list, submits the jobs and then always
  raises: \<^verbatim>\<open>TypeError\<close> in the result loop, or, for an empty list, the error of the
  summary. It never writes the database.\<close>

lemma execute_conversions_result:
  "execute_conversions now convs orch =
     (if \<not> disk_ok (state_manager orch)
      then (Inl FileSystemError,
            orch\<lparr>state_manager := snd (save (Some (pending_state convs now)) now (state_manager orch))\<rparr>)
      else (Inl (if convs = [] then the (print_summary (start_time orch) (database orch)) else TypeError),
            orch\<lparr>database := database orch,
                 state_manager := snd (save (Some (pending_state convs now)) now (state_manager orch)),
                 worker_pool := foldl submit (worker_pool orch) convs\<rparr>))"
proof (cases "disk_ok (state_manager orch)")
  case False
  then show ?thesis by (simp add: execute_conversions_def save_def Let_def)
next
  case True
  obtain e where e: "print_summary (start_time orch) (database orch) = Some e"
    using print_summary_raises [of "start_time orch" "database orch"] by auto
  show ?thesis
  proof (cases "convs = []")
    case True
    with \<open>disk_ok (state_manager orch)\<close> e show ?thesis
      by (simp add: execute_conversions_def save_def Let_def)
  next
    case False
    then have ne: "[n ..< n + length convs] \<noteq> []" for n by simp
    show ?thesis
      using \<open>disk_ok (state_manager orch)\<close> False ne
      by (simp add: execute_conversions_def save_def Let_def process_results_tasks)
  qed
qed

lemma conversions_needed_start_time [simp]:
  "conversions_needed env now paths (orch\<lparr>start_time := st\<rparr>) = conversions_needed env now paths orch"
  by (simp add: conversions_needed_def)

lemma run_steps_cases:
  "run_steps env now paths orch =
     (if scan_paths env paths = [] then (Inr False, orch)
      else if conversions_needed env now paths orch = []
      then (Inr True,
            orch\<lparr>database := snd (snd (analyze_videos env now (scan_paths env paths) Map.empty (database orch)))\<rparr>)
      else if dry_run orch then
        (case dry_run_preview (estimated_size env) (conversions_needed env now paths orch) of
           Inl e \<Rightarrow>
             (Inl e, orch\<lparr>database := snd (snd (analyze_videos env now (scan_paths env paths) Map.empty (database orch)))\<rparr>)
         | Inr summary \<Rightarrow>
             (Inr True,
              orch\<lparr>database := snd (snd (analyze_videos env now (scan_paths env paths) Map.empty (database orch))),
                   logged_preview := Some summary\<rparr>))
      else execute_conversions now (conversions_needed env now paths orch)
             (orch\<lparr>database := snd (snd (analyze_videos env now (scan_paths env paths) Map.empty (database orch)))\<rparr>))"
proof -
  obtain res db1 where a:
    "analyze_videos env now (scan_paths env paths) Map.empty (database orch) = (None, res, db1)"
    using analyze_videos_no_error [of env now "scan_paths env paths" Map.empty "database orch"]
    by (metis prod.collapse)
  show ?thesis
    by (simp add: run_steps_def conversions_needed_def a Let_def split: sum.splits)
qed






lemma run_boolean:
  "fst (run env now paths orch) =
     (scan_paths env paths \<noteq> [] \<and>
      (conversions_needed env now paths orch = [] \<or>
       (dry_run orch \<and>
        (\<exists>summary. dry_run_preview (estimated_size env) (conversions_needed env now paths orch)
                      = Inr summary))))"
  by (auto simp: run_def run_steps_cases execute_conversions_result split: sum.splits)

lemma resume_boolean: "fst (resume now orch) \<noteq> Inr True"
  by (auto simp: resume_def execute_conversions_result Let_def split: prod.splits option.splits)

lemma execute_conversions_raises: "fst (execute_conversions now convs orch) \<noteq> Inr b"
  by (simp add: execute_conversions_result)

text \<open>
  Claim C3 at its failing input: a live run of one file that needs conversion, in which no
  job ends in Failed. \<^verbatim>\<open>_execute_conversions\<close> never gets to \<^verbatim>\<open>return failed == 0\<close>: with
  jobs, the result loop raises \<^verbatim>\<open>TypeError\<close> on the task objects, and the summary would
  raise \<^verbatim>\<open>KeyError\<close> after it. So the boolean of \<^verbatim>\<open>run\<close> does not depend on the failures
  of the jobs: it is true exactly when the scan found a file and either no file was
  selected or the run is a dry run whose preview completed; every live run with a selected
  file returns false, and \<^verbatim>\<open>resume\<close> never returns true. The run of the one file returns
  false with nothing recorded as failed.
\<close>

theorem run_boolean_ignores_failures:
  "fst (run env now paths orch) =
     (scan_paths env paths \<noteq> [] \<and>
      (conversions_needed env now paths orch = [] \<or>
       (dry_run orch \<and>
        (\<exists>summary. dry_run_preview (estimated_size env) (conversions_needed env now paths orch)
                      = Inr summary)))) \<and>
   fst (execute_conversions now convs orch) \<noteq> Inr b \<and>
   fst (resume now orch) \<noteq> Inr True \<and>
   conversions_needed (sample_env [file_x]) 0 [fst file_x] (fresh_orchestrator False False) = [file_x] \<and>
   fst (run (sample_env [file_x]) 0 [fst file_x] (fresh_orchestrator False False)) = False \<and>
   failed_conversions (statistics (database
       (snd (run (sample_env [file_x]) 0 [fst file_x] (fresh_orchestrator False False))))) = 0 \<and>
   sd_failed (current_state (state_manager
       (snd (run (sample_env [file_x]) 0 [fst file_x] (fresh_orchestrator False False))))) = None"
proof -
  have a: "conversions_needed (sample_env [file_x]) 0 [fst file_x] (fresh_orchestrator False False)
             = [file_x]"
    by code_simp
  have b: "fst (run (sample_env [file_x]) 0 [fst file_x] (fresh_orchestrator False False)) = False"
    by code_simp
  have c: "failed_conversions (statistics (database
       (snd (run (sample_env [file_x]) 0 [fst file_x] (fresh_orchestrator False False))))) = 0"
    by code_simp
  have d: "sd_failed (current_state (state_manager
       (snd (run (sample_env [file_x]) 0 [fst file_x] (fresh_orchestrator False False))))) = None"
    by code_simp
  show ?thesis
    using run_boolean [of env now paths orch] resume_boolean [of now orch]
      execute_conversions_raises [of now convs orch b] a b c d
    by blast
qed

text \<open>
  Claim C2 at its failing input: one job whose encoder raises \<^verbatim>\<open>ConversionError\<close>.
  \<^verbatim>\<open>Worker.process\<close> counts the failure in its own metrics and returns \<^verbatim>\<open>None\<close>; the result
  loop counts a \<^verbatim>\<open>None\<close> result as skipped and changes neither store; and the run of that
  one job, in which the loop gets the task object and not the job's result, returns false
  with the path still in \<^verbatim>\<open>pending\<close>, no \<^verbatim>\<open>failed\<close> set in the saved state and the failed
  counter of the ledger at 0.
\<close>

theorem conversion_error_not_recorded:
  "fst (process m p (ConversionErrorRaised msg) t now) = Inr None \<and>
   tasks_failed (snd (process m p (ConversionErrorRaised msg) t now)) = tasks_failed m + 1 \<and>
   process_results now [((p, a), ResNone)] s = (None, s\<lparr>skipped := skipped s + 1\<rparr>) \<and>
   fst (run (sample_env [file_x]) 0 [fst file_x] (fresh_orchestrator False False)) = False \<and>
   sd_pending (current_state (state_manager
       (snd (run (sample_env [file_x]) 0 [fst file_x] (fresh_orchestrator False False)))))
     = Some [fst file_x] \<and>
   sd_failed (current_state (state_manager
       (snd (run (sample_env [file_x]) 0 [fst file_x] (fresh_orchestrator False False))))) = None \<and>
   map_option sd_failed (state_file (state_manager
       (snd (run (sample_env [file_x]) 0 [fst file_x] (fresh_orchestrator False False))))) = Some None \<and>
   failed_conversions (statistics (database
       (snd (run (sample_env [file_x]) 0 [fst file_x] (fresh_orchestrator False False))))) = 0"
proof -
  have a: "fst (process m p (ConversionErrorRaised msg) t now) = Inr None \<and>
           tasks_failed (snd (process m p (ConversionErrorRaised msg) t now)) = tasks_failed m + 1"
    by (simp add: process_def process_finally_def process_enter_def)
  have b: "fst (run (sample_env [file_x]) 0 [fst file_x] (fresh_orchestrator False False)) = False"
    by code_simp
  have c: "sd_pending (current_state (state_manager
       (snd (run (sample_env [file_x]) 0 [fst file_x] (fresh_orchestrator False False)))))
     = Some [fst file_x]"
    by code_simp
  have d: "sd_failed (current_state (state_manager
       (snd (run (sample_env [file_x]) 0 [fst file_x] (fresh_orchestrator False False))))) = None"
    by code_simp
  have e: "map_option sd_failed (state_file (state_manager
       (snd (run (sample_env [file_x]) 0 [fst file_x] (fresh_orchestrator False False))))) = Some None"
    by code_simp
  have f: "failed_conversions (statistics (database
       (snd (run (sample_env [file_x]) 0 [fst file_x] (fresh_orchestrator False False))))) = 0"
    by code_simp
  show ?thesis
    using a b c d e f by simp
qed

text \<open>
  Claim C4 at its failing input: one file, converted in a first run with \<^verbatim>\<open>force\<close> false and
  submitted again to a second process. No code path calls \<^verbatim>\<open>mark_started\<close>, and
  \<^verbatim>\<open>mark_completed\<close> inserts no record, so after the first run table \<^verbatim>\<open>conversions\<close> is
  empty: there is no Completed record, \<^verbatim>\<open>is_converted\<close> is false and the filtering step of
  the second run selects the file again. The same holds when \<^verbatim>\<open>mark_completed\<close> is applied
  to the database of the first run: the ledger counts a success and no record is completed.
\<close>

theorem completed_record_never_written:
  "length (conversions (snd (mark_completed f p orig conv t now db))) = length (conversions db) \<and>
   database (snd (execute_conversions now convs orch)) = database orch \<and>
   conversions (database
       (snd (run (sample_env [file_x]) 0 [fst file_x] (fresh_orchestrator False False)))) = [] \<and>
   is_converted (database
       (snd (run (sample_env [file_x]) 0 [fst file_x] (fresh_orchestrator False False)))) (fst file_x)
     = False \<and>
   conversions_needed (sample_env [file_x]) 1 [fst file_x]
       (next_process (snd (run (sample_env [file_x]) 0 [fst file_x] (fresh_orchestrator False False))))
     = [file_x] \<and>
   successful_conversions (statistics (snd (mark_completed NoFault (fst file_x) 500 300 12 1
       (database (snd (run (sample_env [file_x]) 0 [fst file_x] (fresh_orchestrator False False)))))))
     = 1 \<and>
   is_converted (snd (mark_completed NoFault (fst file_x) 500 300 12 1
       (database (snd (run (sample_env [file_x]) 0 [fst file_x] (fresh_orchestrator False False))))))
       (fst file_x) = False"
proof -
  have a: "length (conversions (snd (mark_completed f p orig conv t now db))) = length (conversions db)"
    by (simp add: mark_completed_cases update_statistics_completed_def update_conversions_completed_def)
  have b: "database (snd (execute_conversions now convs orch)) = database orch"
    by (simp add: execute_conversions_result)
  have c: "conversions (database
       (snd (run (sample_env [file_x]) 0 [fst file_x] (fresh_orchestrator False False)))) = []"
    by code_simp
  have d: "is_converted (database
       (snd (run (sample_env [file_x]) 0 [fst file_x] (fresh_orchestrator False False)))) (fst file_x)
     = False"
    by code_simp
  have e: "conversions_needed (sample_env [file_x]) 1 [fst file_x]
       (next_process (snd (run (sample_env [file_x]) 0 [fst file_x] (fresh_orchestrator False False))))
     = [file_x]"
    by code_simp
  have g: "successful_conversions (statistics (snd (mark_completed NoFault (fst file_x) 500 300 12 1
       (database (snd (run (sample_env [file_x]) 0 [fst file_x] (fresh_orchestrator False False)))))))
     = 1"
    by code_simp
  have h: "is_converted (snd (mark_completed NoFault (fst file_x) 500 300 12 1
       (database (snd (run (sample_env [file_x]) 0 [fst file_x] (fresh_orchestrator False False))))))
       (fst file_x) = False"
    by code_simp
  show ?thesis
    using a b c d e g h by simp
qed

text \<open>
  Claim C10 at its failing input: one job whose encoder returns \<^verbatim>\<open>None\<close>. The worker does
  what the claim says: it counts the task as completed, adds the elapsed time, leaves
  \<^verbatim>\<open>tasks_failed\<close> alone and returns \<^verbatim>\<open>None\<close>. The branch of the result loop for a \<^verbatim>\<open>None\<close>
  result does what the claim says as well: it counts a skip and writes no store. But the
  loop of \<^verbatim>\<open>_execute_conversions\<close> is given the task objects, on which it raises
  \<^verbatim>\<open>TypeError\<close> before anything is tallied, so the steps of the run of that job end with this
  error and the run returns false.
\<close>

theorem skipped_job_not_tallied:
  "process m p (Returned None) t now =
     (Inr None,
      m\<lparr>tasks_completed := tasks_completed m + 1,
        worker_processing_time := worker_processing_time m + t,
        last_task_time := Some now, is_busy := False, current_task := None\<rparr>) \<and>
   process_results now (((p, a), ResNone) # rest) s =
     process_results now rest (s\<lparr>skipped := skipped s + 1\<rparr>) \<and>
   process_results now (((p, a), ResTask k) # rest) s = (Some TypeError, s) \<and>
   fst (run_steps (sample_env [file_x]) 0 [fst file_x]
          ((fresh_orchestrator False False)\<lparr>start_time := Some 0\<rparr>)) = Inl TypeError \<and>
   fst (run (sample_env [file_x]) 0 [fst file_x] (fresh_orchestrator False False)) = False"
proof -
  have a: "process m p (Returned None) t now =
     (Inr None,
      m\<lparr>tasks_completed := tasks_completed m + 1,
        worker_processing_time := worker_processing_time m + t,
        last_task_time := Some now, is_busy := False, current_task := None\<rparr>)"
    by (simp add: process_def process_finally_def process_enter_def)
  have b: "fst (run_steps (sample_env [file_x]) 0 [fst file_x]
          ((fresh_orchestrator False False)\<lparr>start_time := Some 0\<rparr>)) = Inl TypeError"
    by code_simp
  have c: "fst (run (sample_env [file_x]) 0 [fst file_x] (fresh_orchestrator False False)) = False"
    by code_simp
  show ?thesis
    using a b c by simp
qed

end
